theory Spec2Isabelle
  imports Complex_Main "HOL-Library.Multiset"
begin

section \<open>MediRank (app2.py): a shallow embedding\<close>

text \<open>
  The script keeps its login state in the framework's session dictionary, checks a login
  against a fixed credential table, loads two regression models and four label encoders
  from pickle files, and ranks a fixed list of provider ids by the cost the chosen model
  predicts. The session dictionary is a map from keys to Python values, every function
  that writes it takes the dictionary and returns the new one, what a function shows to
  the user is a list of \<open>ui\<close> elements in the order the calls are made, and a raised
  exception is the left summand of the result.

  Python strings are modelled as \<open>string\<close>; the literals of the source that matter are
  ASCII. The pictographs that open some of the user messages are left out of the message
  literals (the theory text is ASCII); nothing proved below depends on them.
\<close>

subsection \<open>Python values, exceptions and user interface output\<close>

datatype pyval = PyBool bool | PyNone | PyStr string

type_synonym session_state = "string \<rightharpoonup> pyval"

text \<open>
  The exceptions are those of the class \<open>Exception\<close>, which is what the handler of the
  ranking request names; each carries the text \<open>str(e)\<close>. \<open>OtherError\<close> stands for
  any other subclass (its class name first).
\<close>

datatype py_exception =
    FileNotFoundError string
  | PermissionError string
  | UnpicklingError string
  | KeyError string
  | ValueError string
  | IndexError string
  | OtherError string string

fun str_exc :: "py_exception \<Rightarrow> string" where
  "str_exc (FileNotFoundError m) = m"
| "str_exc (PermissionError m) = m"
| "str_exc (UnpicklingError m) = m"
| "str_exc (KeyError m) = m"
| "str_exc (ValueError m) = m"
| "str_exc (IndexError m) = m"
| "str_exc (OtherError c m) = m"

fun is_FileNotFoundError :: "py_exception \<Rightarrow> bool" where
  "is_FileNotFoundError (FileNotFoundError m) = True"
| "is_FileNotFoundError e = False"

text \<open>\<open>str(v)\<close> and \<open>not v\<close> on the values a session holds.\<close>

fun str_val :: "pyval \<Rightarrow> string" where
  "str_val (PyBool b) = (if b then ''True'' else ''False'')"
| "str_val PyNone = ''None''"
| "str_val (PyStr s) = s"

fun truthy :: "pyval \<Rightarrow> bool" where
  "truthy (PyBool b) = b"
| "truthy PyNone = False"
| "truthy (PyStr s) = (s \<noteq> [])"

text \<open>
  One element per call that shows something: \<open>st.title\<close>, \<open>st.write\<close>, \<open>st.error\<close>,
  \<open>st.success\<close>, \<open>st.dataframe\<close> (the rows as triples Rank, Provider_Id,
  Average_Total_Payments) and \<open>st.rerun\<close>.
\<close>

datatype ui =
    Title string
  | Write string
  | Error string
  | Success string
  | Dataframe "(int \<times> int \<times> real) list"
  | Rerun

subsection \<open>Login system (lines 37-74)\<close>

definition USER_CREDENTIALS :: "string \<rightharpoonup> string" where
  "USER_CREDENTIALS = map_of [(''admin'', ''password123''), (''user'', ''medi123'')]"

definition initialize_session_state :: "session_state \<Rightarrow> session_state" where
  "initialize_session_state ss =
     (let ss1 = (if ss ''logged_in'' = None then ss(''logged_in'' \<mapsto> PyBool False) else ss)
      in if ss1 ''username'' = None then ss1(''username'' \<mapsto> PyNone) else ss1)"

text \<open>
  The test of line 61, \<open>username in USER_CREDENTIALS and USER_CREDENTIALS[username] == password\<close>:
  the lookup is made only for a key that is there.
\<close>

definition authenticate :: "string \<Rightarrow> string \<Rightarrow> bool" where
  "authenticate username password =
     (case USER_CREDENTIALS username of
        None \<Rightarrow> False
      | Some stored \<Rightarrow> stored = password)"

text \<open>
  \<open>login_page\<close> with the contents of the two text inputs and whether the Login button
  was pressed in this run.
\<close>

definition login_page :: "string \<Rightarrow> string \<Rightarrow> bool \<Rightarrow> session_state \<Rightarrow> session_state \<times> ui list" where
  "login_page username password clicked ss =
     (let shown = [Title ''MediRank - Login'',
                   Write ''Please enter your credentials to access the hospital ranking system.'']
      in if clicked then
           if authenticate username password then
             (ss(''logged_in'' \<mapsto> PyBool True, ''username'' \<mapsto> PyStr username),
              shown @ [Success (''Welcome, '' @ username @ ''! Redirecting...''), Rerun])
           else (ss, shown @ [Error ''Invalid username or password.''])
         else (ss, shown))"

definition logout :: "session_state \<Rightarrow> session_state \<times> ui list" where
  "logout ss = (ss(''logged_in'' \<mapsto> PyBool False, ''username'' \<mapsto> PyNone), [Rerun])"

subsection \<open>Loading the models and the encoders (lines 5-35)\<close>

text \<open>
  \<open>pickle_load path\<close> stands for \<open>open(path, "rb")\<close> followed by \<open>pickle.load(f)\<close>,
  both inside the \<open>try\<close>: the exception either of them raises, or the object read. The
  handler names \<open>FileNotFoundError\<close> only, so any other exception leaves the function.
  A loader returns what it showed and either the exception that left it or the tuple it
  returned (\<open>None\<close> for Python's \<open>None\<close>). The cache of \<open>st.cache_resource\<close> is not
  modelled: every run loads from the same files.
\<close>

definition load_models ::
  "(string \<Rightarrow> py_exception + 'm) \<Rightarrow> ui list \<times> (py_exception + 'm option \<times> 'm option)" where
  "load_models pickle_load =
     (let except = (\<lambda>e. if is_FileNotFoundError e
                         then ([Error ''Model files not found. Please check the file paths.''],
                               Inr (None, None))
                         else ([], Inl e))
      in case pickle_load ''inpatient_model.pkl'' of
           Inl e \<Rightarrow> except e
         | Inr inpatient_model \<Rightarrow>
             (case pickle_load ''outpatient_model.pkl'' of
                Inl e \<Rightarrow> except e
              | Inr outpatient_model \<Rightarrow> ([], Inr (Some inpatient_model, Some outpatient_model))))"

definition load_encoders ::
  "(string \<Rightarrow> py_exception + 'e) \<Rightarrow>
     ui list \<times> (py_exception + 'e option \<times> 'e option \<times> 'e option \<times> 'e option)" where
  "load_encoders pickle_load =
     (let except = (\<lambda>e. if is_FileNotFoundError e
                         then ([Error ''Encoder files not found. Please check the file paths.''],
                               Inr (None, None, None, None))
                         else ([], Inl e))
      in case pickle_load ''le_drg.pkl'' of
           Inl e \<Rightarrow> except e
         | Inr inpatient_le_drg \<Rightarrow>
             (case pickle_load ''le_state.pkl'' of
                Inl e \<Rightarrow> except e
              | Inr inpatient_le_state \<Rightarrow>
                  (case pickle_load ''le_drg_outpatient.pkl'' of
                     Inl e \<Rightarrow> except e
                   | Inr outpatient_le_apc \<Rightarrow>
                       (case pickle_load ''le_state_outpatient.pkl'' of
                          Inl e \<Rightarrow> except e
                        | Inr outpatient_le_state \<Rightarrow>
                            ([], Inr (Some inpatient_le_drg, Some inpatient_le_state,
                                      Some outpatient_le_apc, Some outpatient_le_state))))))"

text \<open>
  A path is \<open>readable\<close> when opening and unpickling it gives an object, and \<open>absent\<close>
  when it raises \<open>FileNotFoundError\<close>; any other exception is a file that is there and
  cannot be read.
\<close>

definition readable :: "(string \<Rightarrow> py_exception + 'a) \<Rightarrow> string \<Rightarrow> bool" where
  "readable pickle_load path = (case pickle_load path of Inl e \<Rightarrow> False | Inr obj \<Rightarrow> True)"

definition absent :: "(string \<Rightarrow> py_exception + 'a) \<Rightarrow> string \<Rightarrow> bool" where
  "absent pickle_load path =
     (case pickle_load path of Inl e \<Rightarrow> is_FileNotFoundError e | Inr obj \<Rightarrow> False)"

definition model_paths :: "string list" where
  "model_paths = [''inpatient_model.pkl'', ''outpatient_model.pkl'']"

definition encoder_paths :: "string list" where
  "encoder_paths =
     [''le_drg.pkl'', ''le_state.pkl'', ''le_drg_outpatient.pkl'', ''le_state_outpatient.pkl'']"

subsection \<open>The loaded artifacts\<close>

record candidate_row =
  Procedure :: int
  Provider_Id :: int
  Provider_State :: int
  Total_Discharge :: int
  Avg_covered_charges :: int

record predicted_row = candidate_row +
  Average_Total_Payments :: real

record ranked_row = predicted_row +
  Rank :: int

text \<open>
  Modelled from the spec: the pickled regression models are not among the sources. The
  spec gives a model the contract \<open>predict(table) -> sequence<float>\<close>; here
  \<open>predict\<close> is any function from the candidate table to the predicted costs, or to
  the exception it raises. The costs are read as reals (a model that yields a
  not-a-number is outside this model).
\<close>

type_synonym model = "candidate_row list \<Rightarrow> py_exception + real list"

definition predict :: "model \<Rightarrow> candidate_row list \<Rightarrow> py_exception + real list" where
  "predict m df = m df"

text \<open>
  Modelled from the spec: the pickled label encoders are not among the sources. The spec
  gives an encoder an ordered set of labels \<open>classes\<close> (the attribute \<open>classes_\<close>)
  with the codes \<open>0..n-1\<close>, and \<open>transform\<close> fails on a label that is not among them.
\<close>

record label_encoder =
  classes :: "string list"

fun index_of :: "string list \<Rightarrow> string \<Rightarrow> nat option" where
  "index_of [] y = None"
| "index_of (c # cs) y = (if c = y then Some 0 else map_option Suc (index_of cs y))"

fun transform :: "label_encoder \<Rightarrow> string list \<Rightarrow> py_exception + int list" where
  "transform le [] = Inr []"
| "transform le (y # ys) =
     (case index_of (classes le) y of
        None \<Rightarrow> Inl (ValueError (''y contains previously unseen labels: '' @ y))
      | Some i \<Rightarrow>
          (case transform le ys of
             Inl e \<Rightarrow> Inl e
           | Inr codes \<Rightarrow> Inr (int i # codes)))"

text \<open>The subscript \<open>[0]\<close> on the result of \<open>transform\<close>.\<close>

definition getitem0 :: "'a list \<Rightarrow> py_exception + 'a" where
  "getitem0 xs = (case xs of [] \<Rightarrow> Inl (IndexError ''index 0 is out of bounds'') | x # rest \<Rightarrow> Inr x)"

record artifacts =
  inpatient_model :: model
  outpatient_model :: model
  inpatient_le_drg :: label_encoder
  inpatient_le_state :: label_encoder
  outpatient_le_apc :: label_encoder
  outpatient_le_state :: label_encoder

subsection \<open>The ranking request (lines 111-145)\<close>

definition provider_ids :: "int list" where
  "provider_ids = [520000..520099]"

text \<open>
  \<open>pd.DataFrame\<close> of five columns: the rows by position, or a \<open>ValueError\<close> when
  the columns differ in length.
\<close>

definition DataFrame ::
  "int list \<Rightarrow> int list \<Rightarrow> int list \<Rightarrow> int list \<Rightarrow> int list \<Rightarrow> py_exception + candidate_row list" where
  "DataFrame procedure_col provider_col state_col discharge_col charges_col =
     (let n = length procedure_col
      in if length provider_col = n \<and> length state_col = n \<and> length discharge_col = n
            \<and> length charges_col = n
         then Inr (map (\<lambda>i. \<lparr>Procedure = procedure_col ! i,
                              Provider_Id = provider_col ! i,
                              Provider_State = state_col ! i,
                              Total_Discharge = discharge_col ! i,
                              Avg_covered_charges = charges_col ! i\<rparr>) [0..<n])
         else Inl (ValueError ''All arrays must be of the same length''))"

text \<open>Lines 117-124: the codes of the two labels and the model of the service type.\<close>

definition encode ::
  "artifacts \<Rightarrow> string \<Rightarrow> string \<Rightarrow> string \<Rightarrow> py_exception + int \<times> int \<times> model" where
  "encode a service_type procedure state =
     (let le_procedure = (if service_type = ''Inpatient'' then inpatient_le_drg a
                          else outpatient_le_apc a);
          le_state = (if service_type = ''Inpatient'' then inpatient_le_state a
                      else outpatient_le_state a);
          m = (if service_type = ''Inpatient'' then inpatient_model a else outpatient_model a)
      in case transform le_procedure [procedure] of
           Inl e \<Rightarrow> Inl e
         | Inr ps \<Rightarrow>
             (case getitem0 ps of
                Inl e \<Rightarrow> Inl e
              | Inr encoded_procedure \<Rightarrow>
                  (case transform le_state [state] of
                     Inl e \<Rightarrow> Inl e
                   | Inr ss \<Rightarrow>
                       (case getitem0 ss of
                          Inl e \<Rightarrow> Inl e
                        | Inr encoded_state \<Rightarrow> Inr (encoded_procedure, encoded_state, m)))))"

text \<open>Lines 127-133.\<close>

definition input_data :: "int \<Rightarrow> int \<Rightarrow> py_exception + candidate_row list" where
  "input_data encoded_procedure encoded_state =
     DataFrame (replicate (length provider_ids) encoded_procedure)
               provider_ids
               (replicate (length provider_ids) encoded_state)
               (replicate (length provider_ids) 100)
               (replicate (length provider_ids) 15000)"

definition candidate_table ::
  "artifacts \<Rightarrow> string \<Rightarrow> string \<Rightarrow> string \<Rightarrow> py_exception + candidate_row list \<times> model" where
  "candidate_table a service_type procedure state =
     (case encode a service_type procedure state of
        Inl e \<Rightarrow> Inl e
      | Inr (encoded_procedure, encoded_state, m) \<Rightarrow>
          (case input_data encoded_procedure encoded_state of
             Inl e \<Rightarrow> Inl e
           | Inr df \<Rightarrow> Inr (df, m)))"

text \<open>
  Line 136: the predictions become the column \<open>Average_Total_Payments\<close>; a column
  of another length than the table is a \<open>ValueError\<close>.
\<close>

definition assign_payments ::
  "candidate_row list \<Rightarrow> real list \<Rightarrow> py_exception + predicted_row list" where
  "assign_payments df ys =
     (if length ys = length df
      then Inr (map (\<lambda>(r, y). candidate_row.extend r (predicted_row.fields y)) (zip df ys))
      else Inl (ValueError ''Length of values does not match length of index''))"

definition predicted_table ::
  "artifacts \<Rightarrow> string \<Rightarrow> string \<Rightarrow> string \<Rightarrow> py_exception + predicted_row list" where
  "predicted_table a service_type procedure state =
     (case candidate_table a service_type procedure state of
        Inl e \<Rightarrow> Inl e
      | Inr (df, m) \<Rightarrow>
          (case predict m df of
             Inl e \<Rightarrow> Inl e
           | Inr ys \<Rightarrow> assign_payments df ys))"

text \<open>
  Line 139 calls \<open>sort_values(by="Average_Total_Payments", ascending=True)\<close> of the
  data frame library, with no \<open>kind\<close> argument. The library is not part of the
  program, so the sort is a parameter \<open>sort_values\<close> of the pipeline, and what the
  library promises of it is \<open>sorts_ascending\<close>: the result holds the same rows, in
  non-decreasing order of the column.
\<close>

definition sorts_ascending :: "(predicted_row list \<Rightarrow> predicted_row list) \<Rightarrow> bool" where
  "sorts_ascending sort_values \<longleftrightarrow>
     (\<forall>df. sorted (map Average_Total_Payments (sort_values df)) \<and> mset (sort_values df) = mset df)"

definition input_data_sorted ::
  "(predicted_row list \<Rightarrow> predicted_row list) \<Rightarrow> artifacts \<Rightarrow> string \<Rightarrow> string \<Rightarrow> string
     \<Rightarrow> py_exception + predicted_row list" where
  "input_data_sorted sort_values a service_type procedure state =
     (case predicted_table a service_type procedure state of
        Inl e \<Rightarrow> Inl e
      | Inr df \<Rightarrow> Inr (sort_values df))"

text \<open>Line 142, after \<open>reset_index(drop=True)\<close>: the rank is the position plus one.\<close>

definition assign_rank :: "predicted_row list \<Rightarrow> ranked_row list" where
  "assign_rank df =
     map (\<lambda>(i, r). predicted_row.extend r (ranked_row.fields (int i + 1)))
       (zip [0..<length df] df)"

text \<open>Line 145: \<open>head(3)\<close> and the three columns shown.\<close>

definition top_3 :: "ranked_row list \<Rightarrow> (int \<times> int \<times> real) list" where
  "top_3 df = map (\<lambda>r. (Rank r, Provider_Id r, Average_Total_Payments r)) (take 3 df)"

definition rank_top3 ::
  "(predicted_row list \<Rightarrow> predicted_row list) \<Rightarrow> artifacts \<Rightarrow> string \<Rightarrow> string \<Rightarrow> string
     \<Rightarrow> py_exception + (int \<times> int \<times> real) list" where
  "rank_top3 sort_values a service_type procedure state =
     (case input_data_sorted sort_values a service_type procedure state of
        Inl e \<Rightarrow> Inl e
      | Inr df \<Rightarrow> Inr (top_3 (assign_rank df)))"

subsection \<open>The main application (lines 79-152) and the script (lines 157-162)\<close>

text \<open>What the user chose and pressed in a run of the script.\<close>

record widgets =
  login_username :: string
  login_password :: string
  login_clicked :: bool
  service_type :: string
  procedure :: string
  state :: string
  find_clicked :: bool

text \<open>Lines 114-152: the \<open>try\<close> around the ranking request and its handler.\<close>

definition find_best_hospitals ::
  "(predicted_row list \<Rightarrow> predicted_row list) \<Rightarrow> artifacts \<Rightarrow> widgets \<Rightarrow> ui list" where
  "find_best_hospitals sort_values a w =
     (case rank_top3 sort_values a (service_type w) (procedure w) (state w) of
        Inr top_3_hospitals \<Rightarrow>
          [Write ''### Top 3 Best Hospitals (Lowest Cost First)'', Dataframe top_3_hospitals]
      | Inl e \<Rightarrow> [Error (''Error: '' @ str_exc e)])"

text \<open>
  \<open>main_app\<close> returns the session, what it showed, and the exception that left it, if
  one did. The page configuration, the sidebar button and the three selectors show
  widgets and no message; what the user chose in them arrives in \<open>widgets\<close>. The
  Logout button only registers \<open>logout\<close> as its callback, which the framework runs
  before the next run of the script (the operation \<open>Logout\<close> below).
\<close>

definition main_app ::
  "(string \<Rightarrow> py_exception + model) \<Rightarrow> (string \<Rightarrow> py_exception + label_encoder)
     \<Rightarrow> (predicted_row list \<Rightarrow> predicted_row list) \<Rightarrow> widgets \<Rightarrow> session_state
     \<Rightarrow> session_state \<times> ui list \<times> py_exception option" where
  "main_app model_files encoder_files sort_values w ss =
     (case ss ''username'' of
        None \<Rightarrow> (ss, [Title ''MediRank - Best Hospitals Finder''], Some (KeyError ''username''))
      | Some u \<Rightarrow>
          (let shown = [Title ''MediRank - Best Hospitals Finder'',
                        Write (''Welcome, **'' @ str_val u @ ''**!'')]
           in case load_models model_files of
                (out1, Inl e) \<Rightarrow> (ss, shown @ out1, Some e)
              | (out1, Inr (im, om)) \<Rightarrow>
                  (case load_encoders encoder_files of
                     (out2, Inl e) \<Rightarrow> (ss, shown @ out1 @ out2, Some e)
                   | (out2, Inr (ild, ils, ola, ols)) \<Rightarrow>
                       (case (im, om, ild, ils, ola, ols) of
                          (Some m1, Some m2, Some e1, Some e2, Some e3, Some e4) \<Rightarrow>
                            (ss,
                             shown @ out1 @ out2 @
                               (if find_clicked w
                                then find_best_hospitals sort_values
                                       \<lparr>inpatient_model = m1, outpatient_model = m2,
                                        inpatient_le_drg = e1, inpatient_le_state = e2,
                                        outpatient_le_apc = e3, outpatient_le_state = e4\<rparr> w
                                else []),
                             None)
                        | _ \<Rightarrow>
                            (ss,
                             shown @ out1 @ out2 @
                               [Error ''Unable to load models or encoders. Please check the files and try again.''],
                             None)))))"

definition script ::
  "(string \<Rightarrow> py_exception + model) \<Rightarrow> (string \<Rightarrow> py_exception + label_encoder)
     \<Rightarrow> (predicted_row list \<Rightarrow> predicted_row list) \<Rightarrow> widgets \<Rightarrow> session_state
     \<Rightarrow> session_state \<times> ui list \<times> py_exception option" where
  "script model_files encoder_files sort_values w ss =
     (let ss1 = initialize_session_state ss
      in case ss1 ''logged_in'' of
           None \<Rightarrow> (ss1, [], Some (KeyError ''logged_in''))
         | Some v \<Rightarrow>
             if \<not> truthy v
             then (case login_page (login_username w) (login_password w) (login_clicked w) ss1 of
                     (ss2, out) \<Rightarrow> (ss2, out, None))
             else main_app model_files encoder_files sort_values w ss1)"

text \<open>
  What can happen to a session: the functions of the program one by one, a whole run of
  the script, and the Logout button's callback.
\<close>

datatype operation =
    Initialize
  | Login string string bool
  | Logout
  | MainApp widgets
  | ScriptRun widgets

fun apply_op ::
  "(string \<Rightarrow> py_exception + model) \<Rightarrow> (string \<Rightarrow> py_exception + label_encoder)
     \<Rightarrow> (predicted_row list \<Rightarrow> predicted_row list) \<Rightarrow> session_state \<Rightarrow> operation
     \<Rightarrow> session_state" where
  "apply_op mf ef sv ss Initialize = initialize_session_state ss"
| "apply_op mf ef sv ss (Login username password clicked) =
     fst (login_page username password clicked ss)"
| "apply_op mf ef sv ss Logout = fst (logout ss)"
| "apply_op mf ef sv ss (MainApp w) = fst (main_app mf ef sv w ss)"
| "apply_op mf ef sv ss (ScriptRun w) = fst (script mf ef sv w ss)"

text \<open>
  The two session fields agree: both keys are set, \<open>logged_in\<close> holds a boolean, and it
  is true exactly when \<open>username\<close> is not \<open>None\<close>.
\<close>

definition session_consistent :: "session_state \<Rightarrow> bool" where
  "session_consistent ss =
     (case (ss ''logged_in'', ss ''username'') of
        (Some (PyBool b), Some u) \<Rightarrow> b = (u \<noteq> PyNone)
      | _ \<Rightarrow> False)"

subsection \<open>Valid inputs, contracts and example inputs\<close>

text \<open>Lines 99-104: the options of the two selectors, by service type.\<close>

definition procedure_options :: "artifacts \<Rightarrow> string \<Rightarrow> string list" where
  "procedure_options a svc =
     (if svc = ''Inpatient'' then classes (inpatient_le_drg a) else classes (outpatient_le_apc a))"

definition state_options :: "artifacts \<Rightarrow> string \<Rightarrow> string list" where
  "state_options a svc =
     (if svc = ''Inpatient'' then classes (inpatient_le_state a)
      else classes (outpatient_le_state a))"

text \<open>A valid input: one of the two service types, and labels taken from the selectors.\<close>

definition valid_input :: "artifacts \<Rightarrow> string \<Rightarrow> string \<Rightarrow> string \<Rightarrow> bool" where
  "valid_input a svc proc st \<longleftrightarrow>
     (svc = ''Inpatient'' \<or> svc = ''Outpatient'')
     \<and> proc \<in> set (procedure_options a svc)
     \<and> st \<in> set (state_options a svc)"

text \<open>
  The contract the spec gives a regression model: one predicted cost for each row of
  the table it is given.
\<close>

definition predicts_every_row :: "model \<Rightarrow> bool" where
  "predicts_every_row m \<longleftrightarrow> (\<forall>df. \<exists>ys. predict m df = Inr ys \<and> length ys = length df)"

text \<open>Artifacts and sorts to evaluate the program on.\<close>

definition example_artifacts :: artifacts where
  "example_artifacts =
     \<lparr>inpatient_model = (\<lambda>df. Inr (map (\<lambda>r. real_of_int (Provider_Id r mod 7)) df)),
      outpatient_model = (\<lambda>df. Inr (map (\<lambda>r. 1000) df)),
      inpatient_le_drg = \<lparr>classes = [''DRG-001'', ''DRG-002'']\<rparr>,
      inpatient_le_state = \<lparr>classes = [''CA'', ''TX'']\<rparr>,
      outpatient_le_apc = \<lparr>classes = [''APC-0012'', ''APC-0013'']\<rparr>,
      outpatient_le_state = \<lparr>classes = [''CA'', ''NY'']\<rparr>\<rparr>"

definition failing_artifacts :: artifacts where
  "failing_artifacts =
     example_artifacts\<lparr>inpatient_model := (\<lambda>df. Inl (ValueError ''X has 5 features, but the model is expecting 4 features as input.''))\<rparr>"

definition stable_sort_values :: "predicted_row list \<Rightarrow> predicted_row list" where
  "stable_sort_values df = sort_key Average_Total_Payments df"

definition reversing_sort_values :: "predicted_row list \<Rightarrow> predicted_row list" where
  "reversing_sort_values df = sort_key Average_Total_Payments (rev df)"

definition example_widgets :: widgets where
  "example_widgets =
     \<lparr>login_username = [], login_password = [], login_clicked = False,
      service_type = ''Inpatient'', procedure = ''DRG-001'', state = ''CA'',
      find_clicked = True\<rparr>"

definition example_model_files :: "string \<Rightarrow> py_exception + model" where
  "example_model_files path =
     (if path = ''inpatient_model.pkl'' then Inr (inpatient_model example_artifacts)
      else if path = ''outpatient_model.pkl'' then Inr (outpatient_model example_artifacts)
      else Inl (FileNotFoundError (''[Errno 2] No such file or directory: '' @ path)))"

definition example_encoder_files :: "string \<Rightarrow> py_exception + label_encoder" where
  "example_encoder_files path =
     (if path = ''le_drg.pkl'' then Inr (inpatient_le_drg example_artifacts)
      else if path = ''le_state.pkl'' then Inr (inpatient_le_state example_artifacts)
      else if path = ''le_drg_outpatient.pkl'' then Inr (outpatient_le_apc example_artifacts)
      else if path = ''le_state_outpatient.pkl'' then Inr (outpatient_le_state example_artifacts)
      else Inl (FileNotFoundError (''[Errno 2] No such file or directory: '' @ path)))"

text \<open>Files that are there but may not be read, and a directory with one file missing.\<close>

definition unreadable_files :: "string \<Rightarrow> py_exception + 'a" where
  "unreadable_files path = Inl (PermissionError (''[Errno 13] Permission denied: '' @ path))"

definition missing_outpatient_model :: "string \<Rightarrow> py_exception + model" where
  "missing_outpatient_model path =
     (if path = ''outpatient_model.pkl''
      then Inl (FileNotFoundError (''[Errno 2] No such file or directory: '' @ path))
      else example_model_files path)"

definition missing_state_encoder :: "string \<Rightarrow> py_exception + label_encoder" where
  "missing_state_encoder path =
     (if path = ''le_state.pkl''
      then Inl (FileNotFoundError (''[Errno 2] No such file or directory: '' @ path))
      else example_encoder_files path)"

text \<open>
  What it would mean for the sort to be stable: for every cost, the rows of that cost
  stand in the sorted table \<open>df'\<close> in the order they have in the table \<open>df\<close>.
\<close>

definition stable_order :: "predicted_row list \<Rightarrow> predicted_row list \<Rightarrow> bool" where
  "stable_order df df' \<longleftrightarrow>
     (\<forall>k. filter (\<lambda>r. Average_Total_Payments r = k) df'
          = filter (\<lambda>r. Average_Total_Payments r = k) df)"


text \<open>A session after the login of \<open>admin\<close>.\<close>

definition admin_session :: session_state where
  "admin_session = [''logged_in'' \<mapsto> PyBool True, ''username'' \<mapsto> PyStr ''admin'']"

text \<open>Model files whose inpatient model raises, and widgets with a label no encoder knows.\<close>

definition failing_model_files :: "string \<Rightarrow> py_exception + model" where
  "failing_model_files path =
     (if path = ''inpatient_model.pkl'' then Inr (inpatient_model failing_artifacts)
      else example_model_files path)"

definition unknown_label_widgets :: widgets where
  "unknown_label_widgets = example_widgets\<lparr>procedure := ''DRG-999''\<rparr>"

text \<open>
  An exception \<open>e\<close> is raised inside the ranking request: by the encoding of the labels,
  by the construction of the table, by the prediction, or by the assignment of the
  predicted column.
\<close>

definition raised_in_request ::
  "artifacts \<Rightarrow> string \<Rightarrow> string \<Rightarrow> string \<Rightarrow> py_exception \<Rightarrow> bool" where
  "raised_in_request a svc proc st e \<longleftrightarrow>
     (case encode a svc proc st of
        Inl e1 \<Rightarrow> e1 = e
      | Inr (encoded_procedure, encoded_state, m) \<Rightarrow>
          (case input_data encoded_procedure encoded_state of
             Inl e2 \<Rightarrow> e2 = e
           | Inr df \<Rightarrow>
               (case predict m df of
                  Inl e3 \<Rightarrow> e3 = e
                | Inr ys \<Rightarrow> assign_payments df ys = Inl e)))"

text \<open>
  Both loaders open their files in a fixed order inside one \<open>try\<close>: the first file
  that fails to load ends the attempt, and the files after it are never opened.
  \<open>first_failure\<close> is the exception of that file, if any.
\<close>

fun first_failure :: "(string \<Rightarrow> py_exception + 'a) \<Rightarrow> string list \<Rightarrow> py_exception option" where
  "first_failure pickle_load [] = None"
| "first_failure pickle_load (path # paths) =
     (case pickle_load path of
        Inl e \<Rightarrow> Some e
      | Inr obj \<Rightarrow> first_failure pickle_load paths)"

text \<open>
  Directories in which the first file of each loader is missing and the others are
  unreadable, and the other way round.
\<close>

definition absent_then_unreadable :: "string \<Rightarrow> py_exception + 'a" where
  "absent_then_unreadable path =
     (if path = ''inpatient_model.pkl'' \<or> path = ''le_drg.pkl''
      then Inl (FileNotFoundError (''[Errno 2] No such file or directory: '' @ path))
      else Inl (PermissionError (''[Errno 13] Permission denied: '' @ path)))"

definition unreadable_then_absent :: "string \<Rightarrow> py_exception + 'a" where
  "unreadable_then_absent path =
     (if path = ''inpatient_model.pkl'' \<or> path = ''le_drg.pkl''
      then Inl (PermissionError (''[Errno 13] Permission denied: '' @ path))
      else Inl (FileNotFoundError (''[Errno 2] No such file or directory: '' @ path)))"

section \<open>Properties\<close>

subsection \<open>Encoding and the candidate table\<close>

lemma index_of_None: "index_of cs y = None \<longleftrightarrow> y \<notin> set cs"
  by (induction cs) auto

lemma transform_known:
  "y \<in> set (classes le) \<Longrightarrow> \<exists>i. transform le [y] = Inr [int i]"
  using index_of_None [of "classes le" y] by (cases "index_of (classes le) y") auto

lemma transform_unknown:
  "y \<notin> set (classes le) \<Longrightarrow>
     transform le [y] = Inl (ValueError (''y contains previously unseen labels: '' @ y))"
  using index_of_None [of "classes le" y] by simp

lemma length_provider_ids: "length provider_ids = 100"
  by (simp add: provider_ids_def)

lemma set_provider_ids: "set provider_ids = {520000..520099}"
  by (simp only: provider_ids_def set_upto)

text \<open>Building the table never fails: the five columns have the length of the id list.\<close>

lemma input_data_rows:
  "input_data ep es =
     Inr (map (\<lambda>pid. \<lparr>Procedure = ep, Provider_Id = pid, Provider_State = es,
                        Total_Discharge = 100, Avg_covered_charges = 15000\<rparr>) provider_ids)"
proof -
  have "map (\<lambda>i. \<lparr>Procedure = replicate (length provider_ids) ep ! i,
                   Provider_Id = provider_ids ! i,
                   Provider_State = replicate (length provider_ids) es ! i,
                   Total_Discharge = replicate (length provider_ids) 100 ! i,
                   Avg_covered_charges = replicate (length provider_ids) 15000 ! i\<rparr>)
          [0..<length provider_ids]
        = map (\<lambda>pid. \<lparr>Procedure = ep, Provider_Id = pid, Provider_State = es,
                        Total_Discharge = 100, Avg_covered_charges = 15000\<rparr>) provider_ids"
    by (rule nth_equalityI) auto
  then show ?thesis
    by (simp add: input_data_def DataFrame_def Let_def)
qed

lemma encode_valid:
  assumes "valid_input a svc proc st"
  shows "\<exists>ep es. encode a svc proc st =
           Inr (ep, es, if svc = ''Inpatient'' then inpatient_model a else outpatient_model a)"
proof -
  let ?lp = "if svc = ''Inpatient'' then inpatient_le_drg a else outpatient_le_apc a"
  let ?ls = "if svc = ''Inpatient'' then inpatient_le_state a else outpatient_le_state a"
  from assms have "proc \<in> set (classes ?lp)" and "st \<in> set (classes ?ls)"
    by (auto simp: valid_input_def procedure_options_def state_options_def split: if_splits)
  then obtain i j where "transform ?lp [proc] = Inr [int i]" and "transform ?ls [st] = Inr [int j]"
    using transform_known by blast
  then show ?thesis
    by (simp add: encode_def Let_def getitem0_def)
qed

lemma candidate_table_valid:
  assumes "valid_input a svc proc st"
  shows "\<exists>ep es. candidate_table a svc proc st =
           Inr (map (\<lambda>pid. \<lparr>Procedure = ep, Provider_Id = pid, Provider_State = es,
                              Total_Discharge = 100, Avg_covered_charges = 15000\<rparr>) provider_ids,
                if svc = ''Inpatient'' then inpatient_model a else outpatient_model a)"
proof -
  from encode_valid [OF assms] obtain ep es where
    "encode a svc proc st =
       Inr (ep, es, if svc = ''Inpatient'' then inpatient_model a else outpatient_model a)"
    by blast
  then show ?thesis
    by (simp add: candidate_table_def input_data_rows)
qed

text \<open>
  C6. For a valid input the pipeline encodes the two labels and builds a table of
  exactly 100 rows, one for each provider id 520000, ..., 520099 in ascending order;
  every row holds the same procedure code and the same state code (the two codes
  \<open>encode\<close> returned), \<open>Total_Discharge = 100\<close> and \<open>Avg_covered_charges = 15000\<close>.
\<close>

theorem candidate_table_rows:
  assumes "valid_input a svc proc st"
  shows "\<exists>df m ep es. candidate_table a svc proc st = Inr (df, m)
           \<and> encode a svc proc st = Inr (ep, es, m)
           \<and> length df = 100
           \<and> map Provider_Id df = [520000..520099]
           \<and> df = map (\<lambda>pid. \<lparr>Procedure = ep, Provider_Id = pid, Provider_State = es,
                              Total_Discharge = 100, Avg_covered_charges = 15000\<rparr>)
                    [520000..520099]"
proof -
  let ?m = "if svc = ''Inpatient'' then inpatient_model a else outpatient_model a"
  from encode_valid [OF assms] obtain ep es where
    e: "encode a svc proc st = Inr (ep, es, ?m)"
    by blast
  let ?df = "map (\<lambda>pid. \<lparr>Procedure = ep, Provider_Id = pid, Provider_State = es,
                         Total_Discharge = 100, Avg_covered_charges = 15000\<rparr>)
               [520000..520099]"
  have c: "candidate_table a svc proc st = Inr (?df, ?m)"
    using e by (simp add: candidate_table_def input_data_rows provider_ids_def)
  have l: "length ?df = 100" by simp
  have p: "map Provider_Id ?df = [520000..520099]" by (simp add: comp_def)
  from e c l p show ?thesis by blast
qed

theorem candidate_table_rows_witness:
  "valid_input example_artifacts ''Inpatient'' ''DRG-002'' ''TX''
   \<and> candidate_table example_artifacts ''Inpatient'' ''DRG-002'' ''TX''
       = Inr (map (\<lambda>pid. \<lparr>Procedure = 1, Provider_Id = pid, Provider_State = 1,
                           Total_Discharge = 100, Avg_covered_charges = 15000\<rparr>)
                [520000..520099],
              inpatient_model example_artifacts)"
proof -
  have v: "valid_input example_artifacts ''Inpatient'' ''DRG-002'' ''TX''"
    by (simp add: valid_input_def procedure_options_def state_options_def example_artifacts_def)
  have e: "encode example_artifacts ''Inpatient'' ''DRG-002'' ''TX''
             = Inr (1, 1, inpatient_model example_artifacts)"
    by (simp add: encode_def example_artifacts_def getitem0_def)
  from candidate_table_rows [OF v] e v show ?thesis
    by auto
qed

subsection \<open>Prediction, sort and rank\<close>

lemma ATP_extend [simp]:
  "Average_Total_Payments (candidate_row.extend r (predicted_row.fields y)) = y"
  by (simp add: predicted_row.defs candidate_row.defs)

lemma Provider_Id_extend [simp]:
  "Provider_Id (candidate_row.extend r (predicted_row.fields y)) = Provider_Id r"
  by (simp add: predicted_row.defs candidate_row.defs)

lemma ranked_fields [simp]:
  "Rank (predicted_row.extend r (ranked_row.fields k)) = k"
  "Provider_Id (predicted_row.extend r (ranked_row.fields k)) = Provider_Id r"
  "Average_Total_Payments (predicted_row.extend r (ranked_row.fields k)) = Average_Total_Payments r"
  by (simp_all add: predicted_row.defs ranked_row.defs)

lemma length_assign_rank [simp]: "length (assign_rank df) = length df"
  by (simp add: assign_rank_def)

lemma nth_assign_rank:
  "i < length df \<Longrightarrow>
     assign_rank df ! i = predicted_row.extend (df ! i) (ranked_row.fields (int i + 1))"
  by (simp add: assign_rank_def)

lemma take_three: "3 \<le> length xs \<Longrightarrow> take 3 xs = [xs ! 0, xs ! 1, xs ! 2]"
  by (auto simp: numeral_3_eq_3 Suc_le_length_iff)

lemma top_3_three:
  assumes "3 \<le> length df"
  shows "top_3 (assign_rank df) =
           [(1, Provider_Id (df ! 0), Average_Total_Payments (df ! 0)),
            (2, Provider_Id (df ! 1), Average_Total_Payments (df ! 1)),
            (3, Provider_Id (df ! 2), Average_Total_Payments (df ! 2))]"
proof -
  have "take 3 (assign_rank df) = [assign_rank df ! 0, assign_rank df ! 1, assign_rank df ! 2]"
    using assms by (intro take_three) simp
  moreover have "0 < length df" "1 < length df" "2 < length df"
    using assms by auto
  ultimately show ?thesis
    by (simp add: top_3_def nth_assign_rank)
qed


lemma sorts_ascending_stable: "sorts_ascending stable_sort_values"
  by (simp add: sorts_ascending_def stable_sort_values_def)


lemma predicts_every_row_examples:
  "predicts_every_row (inpatient_model example_artifacts)"
  "predicts_every_row (outpatient_model example_artifacts)"
  by (simp_all add: predicts_every_row_def predict_def example_artifacts_def)

lemma valid_input_examples:
  "valid_input example_artifacts ''Inpatient'' ''DRG-001'' ''CA''"
  "valid_input example_artifacts ''Outpatient'' ''APC-0012'' ''CA''"
  by (simp_all add: valid_input_def procedure_options_def state_options_def example_artifacts_def)

lemma predicted_table_rows:
  assumes "valid_input a svc proc st"
    and "predicts_every_row (if svc = ''Inpatient'' then inpatient_model a else outpatient_model a)"
  shows "\<exists>cand m ys df. candidate_table a svc proc st = Inr (cand, m)
            \<and> predict m cand = Inr ys \<and> length ys = 100
            \<and> predicted_table a svc proc st = Inr df
            \<and> map Provider_Id df = provider_ids
            \<and> map Average_Total_Payments df = ys"
proof -
  let ?m = "if svc = ''Inpatient'' then inpatient_model a else outpatient_model a"
  from candidate_table_valid [OF assms(1)] obtain ep es where
    c: "candidate_table a svc proc st =
          Inr (map (\<lambda>pid. \<lparr>Procedure = ep, Provider_Id = pid, Provider_State = es,
                             Total_Discharge = 100, Avg_covered_charges = 15000\<rparr>) provider_ids,
               ?m)"
    by blast
  let ?cand = "map (\<lambda>pid. \<lparr>Procedure = ep, Provider_Id = pid, Provider_State = es,
                         Total_Discharge = 100, Avg_covered_charges = 15000\<rparr>) provider_ids"
  from assms(2) obtain ys where ys: "predict ?m ?cand = Inr ys" "length ys = length ?cand"
    unfolding predicts_every_row_def by blast
  let ?df = "map (\<lambda>(r, y). candidate_row.extend r (predicted_row.fields y)) (zip ?cand ys)"
  have p: "predicted_table a svc proc st = Inr ?df"
    using c ys by (simp add: predicted_table_def assign_payments_def)
  have l: "length ys = 100" using ys(2) by (simp add: length_provider_ids)
  have i: "map Provider_Id ?df = provider_ids"
    using ys(2) by (auto simp: list_eq_iff_nth_eq)
  have y: "map Average_Total_Payments ?df = ys"
    using ys(2) by (auto simp: list_eq_iff_nth_eq)
  from c ys(1) l p i y show ?thesis by blast
qed

lemma sorted_keys_unique:
  assumes "sorted (map f s)" and "mset s = mset df"
  shows "map f s = sort (map f df)"
proof -
  have "mset (map f s) = mset (map f df)"
    using assms(2) by (metis mset_map)
  then show ?thesis
    using assms(1) by (metis properties_for_sort)
qed

lemma distinct_provider_ids: "distinct provider_ids"
  by (simp only: provider_ids_def distinct_upto)

text \<open>
  C1. For a valid input, with a sort that sorts by predicted cost and a model (the one
  of the chosen service type) that returns one cost for each row, the ranking request
  returns exactly three rows. They are the first three rows \<open>r1\<close>, \<open>r2\<close>, \<open>r3\<close> of the
  sorted table of the predicted table \<open>df\<close>, whose provider ids are 520000, ..., 520099
  and whose costs are the predictions \<open>ys\<close> of the model on the candidate table. Their
  ranks are 1, 2, 3 in this order; they are rows of \<open>df\<close> of three different providers;
  their costs are non-decreasing and are the three lowest predicted costs.
\<close>

theorem rank_top3_three_rows:
  assumes "sorts_ascending sort_values"
    and "valid_input a svc proc st"
    and "predicts_every_row (if svc = ''Inpatient'' then inpatient_model a else outpatient_model a)"
  shows "\<exists>cand m ys df r1 r2 r3.
           candidate_table a svc proc st = Inr (cand, m)
           \<and> predict m cand = Inr ys \<and> length ys = 100
           \<and> predicted_table a svc proc st = Inr df
           \<and> map Provider_Id df = [520000..520099]
           \<and> map Average_Total_Payments df = ys
           \<and> take 3 (sort_values df) = [r1, r2, r3]
           \<and> rank_top3 sort_values a svc proc st =
               Inr [(1, Provider_Id r1, Average_Total_Payments r1),
                    (2, Provider_Id r2, Average_Total_Payments r2),
                    (3, Provider_Id r3, Average_Total_Payments r3)]
           \<and> {r1, r2, r3} \<subseteq> set df
           \<and> distinct [Provider_Id r1, Provider_Id r2, Provider_Id r3]
           \<and> Average_Total_Payments r1 \<le> Average_Total_Payments r2
           \<and> Average_Total_Payments r2 \<le> Average_Total_Payments r3
           \<and> [Average_Total_Payments r1, Average_Total_Payments r2, Average_Total_Payments r3]
               = take 3 (sort ys)"
proof -
  from predicted_table_rows [OF assms(2,3)] obtain cand m ys df where
    c: "candidate_table a svc proc st = Inr (cand, m)"
    and p: "predict m cand = Inr ys" and l: "length ys = 100"
    and df: "predicted_table a svc proc st = Inr df"
    and ids: "map Provider_Id df = provider_ids"
    and ys: "map Average_Total_Payments df = ys"
    by blast
  let ?s = "sort_values df"
  from assms(1) have srt: "sorted (map Average_Total_Payments ?s)" and ms: "mset ?s = mset df"
    unfolding sorts_ascending_def by blast+
  have ldf: "length df = 100" using ys l by (metis length_map)
  from ms have len: "length ?s = 100" using ldf mset_eq_length by fastforce
  have t3: "take 3 ?s = [?s ! 0, ?s ! 1, ?s ! 2]"
    using len by (intro take_three) simp
  have r: "rank_top3 sort_values a svc proc st = Inr (top_3 (assign_rank ?s))"
    using df by (simp add: rank_top3_def input_data_sorted_def)
  have t: "top_3 (assign_rank ?s) =
           [(1, Provider_Id (?s ! 0), Average_Total_Payments (?s ! 0)),
            (2, Provider_Id (?s ! 1), Average_Total_Payments (?s ! 1)),
            (3, Provider_Id (?s ! 2), Average_Total_Payments (?s ! 2))]"
    using len by (intro top_3_three) simp
  have sub: "{?s ! 0, ?s ! 1, ?s ! 2} \<subseteq> set df"
    using mset_eq_setD [OF ms] len nth_mem [of _ ?s] by auto
  have "mset (map Provider_Id ?s) = mset (map Provider_Id df)"
    using ms by (metis mset_map)
  then have "distinct (map Provider_Id ?s)"
    using ids distinct_provider_ids by (metis mset_eq_imp_distinct_iff)
  then have "distinct (take 3 (map Provider_Id ?s))"
    by (rule distinct_take)
  then have d: "distinct [Provider_Id (?s ! 0), Provider_Id (?s ! 1), Provider_Id (?s ! 2)]"
    by (simp only: take_map t3 list.map)
  have le: "Average_Total_Payments (?s ! 0) \<le> Average_Total_Payments (?s ! 1)"
           "Average_Total_Payments (?s ! 1) \<le> Average_Total_Payments (?s ! 2)"
    using sorted_nth_mono [OF srt, of 0 1] sorted_nth_mono [OF srt, of 1 2] len by simp_all
  have "map Average_Total_Payments ?s = sort ys"
    using sorted_keys_unique [OF srt ms] ys by simp
  then have "take 3 (map Average_Total_Payments ?s) = take 3 (sort ys)"
    by simp
  then have low: "[Average_Total_Payments (?s ! 0), Average_Total_Payments (?s ! 1),
                   Average_Total_Payments (?s ! 2)] = take 3 (sort ys)"
    by (simp only: take_map t3 list.map)
  have ids': "map Provider_Id df = [520000..520099]"
    using ids by (simp only: provider_ids_def)
  from c p l df ids' ys t3 r t sub d le low show ?thesis
    by (intro exI [of _ cand] exI [of _ m] exI [of _ ys] exI [of _ df]
        exI [of _ "?s ! 0"] exI [of _ "?s ! 1"] exI [of _ "?s ! 2"]) simp
qed

theorem rank_top3_three_rows_witness:
  "sorts_ascending stable_sort_values
   \<and> valid_input example_artifacts ''Inpatient'' ''DRG-001'' ''CA''
   \<and> predicts_every_row (inpatient_model example_artifacts)
   \<and> (\<exists>cand m ys df r1 r2 r3.
           candidate_table example_artifacts ''Inpatient'' ''DRG-001'' ''CA'' = Inr (cand, m)
           \<and> predict m cand = Inr ys \<and> length ys = 100
           \<and> predicted_table example_artifacts ''Inpatient'' ''DRG-001'' ''CA'' = Inr df
           \<and> map Provider_Id df = [520000..520099]
           \<and> map Average_Total_Payments df = ys
           \<and> take 3 (stable_sort_values df) = [r1, r2, r3]
           \<and> rank_top3 stable_sort_values example_artifacts ''Inpatient'' ''DRG-001'' ''CA'' =
               Inr [(1, Provider_Id r1, Average_Total_Payments r1),
                    (2, Provider_Id r2, Average_Total_Payments r2),
                    (3, Provider_Id r3, Average_Total_Payments r3)]
           \<and> {r1, r2, r3} \<subseteq> set df
           \<and> distinct [Provider_Id r1, Provider_Id r2, Provider_Id r3]
           \<and> Average_Total_Payments r1 \<le> Average_Total_Payments r2
           \<and> Average_Total_Payments r2 \<le> Average_Total_Payments r3
           \<and> [Average_Total_Payments r1, Average_Total_Payments r2, Average_Total_Payments r3]
               = take 3 (sort ys))"
proof -
  have m: "predicts_every_row (if ''Inpatient'' = ''Inpatient''
             then inpatient_model example_artifacts else outpatient_model example_artifacts)"
    using predicts_every_row_examples(1) by simp
  show ?thesis
    using rank_top3_three_rows [OF sorts_ascending_stable valid_input_examples(1) m]
      sorts_ascending_stable valid_input_examples(1) predicts_every_row_examples(1)
    by simp
qed

subsection \<open>Login, logout and the session\<close>

lemma authenticate_examples:
  "authenticate ''admin'' ''password123''" "authenticate ''user'' ''medi123''"
  "\<not> authenticate ''admin'' ''wrong''" "\<not> authenticate ''Admin'' ''password123''"
  "\<not> authenticate ''admin'' ''Password123''" "\<not> authenticate ''user'' ''password123''"
  "\<not> authenticate [] []"
  by (simp_all add: authenticate_def USER_CREDENTIALS_def)

text \<open>
  C2. The login test is true exactly when the credential table maps the given user name
  to the given password, that is, exactly for the pairs (admin, password123) and
  (user, medi123); the comparison is equality of strings, so it is case-sensitive. The
  table has the two keys admin and user.
\<close>

theorem authenticate_iff_credentials:
  "(authenticate u p \<longleftrightarrow> USER_CREDENTIALS u = Some p)
   \<and> (authenticate u p \<longleftrightarrow>
        (u, p) = (''admin'', ''password123'') \<or> (u, p) = (''user'', ''medi123''))
   \<and> dom USER_CREDENTIALS = {''admin'', ''user''}"
  by (auto simp: authenticate_def USER_CREDENTIALS_def split: option.splits if_splits)

theorem authenticate_iff_credentials_witness:
  "authenticate ''user'' ''medi123'' \<and> USER_CREDENTIALS ''user'' = Some ''medi123''
   \<and> \<not> authenticate ''User'' ''medi123'' \<and> USER_CREDENTIALS ''User'' \<noteq> Some ''medi123''
   \<and> \<not> authenticate ''admin'' ''medi123''"
  using authenticate_iff_credentials [of "''user''" "''medi123''"]
    authenticate_iff_credentials [of "''User''" "''medi123''"]
    authenticate_iff_credentials [of "''admin''" "''medi123''"]
  by auto

text \<open>
  C3. When the Login button is pressed: if the login test succeeds, the session becomes
  the old one with \<open>logged_in\<close> set to true and \<open>username\<close> set to the given user name;
  if it fails, the session is exactly the one before.
\<close>

theorem login_page_session:
  "(authenticate u p \<longrightarrow>
      fst (login_page u p True ss) = ss(''logged_in'' \<mapsto> PyBool True, ''username'' \<mapsto> PyStr u))
   \<and> (\<not> authenticate u p \<longrightarrow> fst (login_page u p True ss) = ss)"
  by (simp add: login_page_def Let_def)

theorem login_page_session_witness:
  "authenticate ''admin'' ''password123''
   \<and> fst (login_page ''admin'' ''password123'' True (initialize_session_state Map.empty))
       = [''logged_in'' \<mapsto> PyBool True, ''username'' \<mapsto> PyStr ''admin'']
   \<and> \<not> authenticate ''admin'' ''wrong''
   \<and> fst (login_page ''admin'' ''wrong'' True
            [''logged_in'' \<mapsto> PyBool True, ''username'' \<mapsto> PyStr ''user''])
       = [''logged_in'' \<mapsto> PyBool True, ''username'' \<mapsto> PyStr ''user'']"
  using login_page_session [of "''admin''" "''password123''" "initialize_session_state Map.empty"]
    login_page_session [of "''admin''" "''wrong''"
      "[''logged_in'' \<mapsto> PyBool True, ''username'' \<mapsto> PyStr ''user'']"]
    authenticate_examples(1,3)
  by (simp add: initialize_session_state_def)

text \<open>
  C4. After \<open>logout\<close>, whatever the session was, \<open>logged_in\<close> is false and \<open>username\<close>
  is \<open>None\<close>: the two session fields are exactly these, and every other key of the
  dictionary is as before.
\<close>

theorem logout_session:
  "fst (logout ss) ''logged_in'' = Some (PyBool False)
   \<and> fst (logout ss) ''username'' = Some PyNone
   \<and> fst (logout ss) |` {''logged_in'', ''username''}
       = [''logged_in'' \<mapsto> PyBool False, ''username'' \<mapsto> PyNone]
   \<and> fst (logout ss) |` (- {''logged_in'', ''username''}) = ss |` (- {''logged_in'', ''username''})"
  by (auto simp: logout_def restrict_map_def fun_eq_iff)

theorem logout_session_witness:
  "fst (logout admin_session) = [''logged_in'' \<mapsto> PyBool False, ''username'' \<mapsto> PyNone]
   \<and> fst (logout Map.empty) = [''logged_in'' \<mapsto> PyBool False, ''username'' \<mapsto> PyNone]"
proof -
  have "fst (logout admin_session) |` {''logged_in'', ''username''} = fst (logout admin_session)"
    by (auto simp: logout_def admin_session_def restrict_map_def fun_eq_iff)
  moreover have "fst (logout Map.empty) |` {''logged_in'', ''username''} = fst (logout Map.empty)"
    by (auto simp: logout_def restrict_map_def fun_eq_iff)
  ultimately show ?thesis
    using logout_session [of admin_session] logout_session [of Map.empty] by simp
qed

lemma main_app_session: "fst (main_app mf ef sv w ss) = ss"
  by (simp add: main_app_def Let_def split: option.splits prod.splits sum.splits)

lemma initialize_consistent:
  "session_consistent ss \<Longrightarrow> initialize_session_state ss = ss"
  by (auto simp: session_consistent_def initialize_session_state_def
      split: option.splits pyval.splits)

lemma fst_login_page:
  "fst (login_page u p c ss) =
     (if c \<and> authenticate u p
      then ss(''logged_in'' \<mapsto> PyBool True, ''username'' \<mapsto> PyStr u) else ss)"
  by (simp add: login_page_def Let_def)

lemma login_page_consistent:
  "session_consistent ss \<Longrightarrow> session_consistent (fst (login_page u p c ss))"
  unfolding fst_login_page by (simp add: session_consistent_def)

lemma logout_consistent: "session_consistent (fst (logout ss))"
  by (simp add: logout_def session_consistent_def)

lemma script_consistent:
  "session_consistent ss \<Longrightarrow> session_consistent (fst (script mf ef sv w ss))"
proof -
  assume c: "session_consistent ss"
  then obtain v where v: "ss ''logged_in'' = Some v"
    by (auto simp: session_consistent_def split: option.splits)
  show ?thesis
  proof (cases "truthy v")
    case True
    then show ?thesis
      using c v by (simp add: script_def initialize_consistent main_app_session)
  next
    case False
    then have "fst (script mf ef sv w ss)
                 = fst (login_page (login_username w) (login_password w) (login_clicked w) ss)"
      using c v by (simp add: script_def initialize_consistent split: prod.splits)
    then show ?thesis
      using c by (simp add: login_page_consistent)
  qed
qed

lemma apply_op_consistent:
  "session_consistent ss \<Longrightarrow> session_consistent (apply_op mf ef sv ss op)"
  by (cases op)
    (simp_all add: initialize_consistent login_page_consistent logout_consistent
      main_app_session script_consistent)

lemma foldl_consistent:
  "session_consistent ss \<Longrightarrow> session_consistent (foldl (apply_op mf ef sv) ss ops)"
  by (induction ops arbitrary: ss) (simp_all add: apply_op_consistent)

lemma initial_consistent: "session_consistent (initialize_session_state Map.empty)"
  by (simp add: session_consistent_def initialize_session_state_def)

text \<open>
  C9. The session the script sets up from the empty dictionary is consistent, and so is
  the session after any sequence of operations from there (initialization, login
  attempts that succeed or fail, logout, the main application, whole runs of the script):
  both keys are set, and \<open>logged_in\<close> is true exactly when \<open>username\<close> is not \<open>None\<close>.
\<close>

theorem session_always_consistent:
  "session_consistent (initialize_session_state Map.empty)
   \<and> session_consistent (foldl (apply_op mf ef sv) (initialize_session_state Map.empty) ops)
   \<and> (session_consistent ss \<longleftrightarrow>
        (\<exists>b u. ss ''logged_in'' = Some (PyBool b) \<and> ss ''username'' = Some u
               \<and> (b \<longleftrightarrow> u \<noteq> PyNone)))"
proof (intro conjI)
  show "session_consistent (initialize_session_state Map.empty)"
    by (rule initial_consistent)
  show "session_consistent (foldl (apply_op mf ef sv) (initialize_session_state Map.empty) ops)"
    by (rule foldl_consistent) (rule initial_consistent)
  show "session_consistent ss \<longleftrightarrow>
        (\<exists>b u. ss ''logged_in'' = Some (PyBool b) \<and> ss ''username'' = Some u
               \<and> (b \<longleftrightarrow> u \<noteq> PyNone))"
    by (auto simp: session_consistent_def split: option.splits pyval.splits)
qed

theorem session_always_consistent_witness:
  "session_consistent
     (foldl (apply_op example_model_files example_encoder_files stable_sort_values)
        (initialize_session_state Map.empty)
        [Login ''admin'' ''wrong'' True, Login ''admin'' ''password123'' True,
         ScriptRun example_widgets, Logout, Initialize])
   \<and> foldl (apply_op example_model_files example_encoder_files stable_sort_values)
        (initialize_session_state Map.empty)
        [Login ''admin'' ''wrong'' True, Login ''admin'' ''password123'' True] = admin_session"
  using session_always_consistent [of example_model_files example_encoder_files
      stable_sort_values
      "[Login ''admin'' ''wrong'' True, Login ''admin'' ''password123'' True,
        ScriptRun example_widgets, Logout, Initialize]" Map.empty]
    authenticate_examples(1,3)
  by (auto simp: fst_login_page initialize_session_state_def admin_session_def)

text \<open>
  C10. The main application, and with it every ranking request, successful or failing,
  returns the session it was given, whatever the files, the sort, the widgets and the
  session are; and a run of the script in a logged-in session returns that session.
\<close>

theorem ranking_keeps_session:
  "fst (main_app mf ef sv w ss) = ss
   \<and> (ss ''logged_in'' = Some (PyBool True) \<longrightarrow> ss ''username'' \<noteq> None \<longrightarrow>
        fst (script mf ef sv w ss) = ss)"
  by (auto simp: main_app_session script_def initialize_session_state_def Let_def)

theorem ranking_keeps_session_witness:
  "admin_session ''logged_in'' = Some (PyBool True) \<and> admin_session ''username'' \<noteq> None
   \<and> fst (main_app example_model_files example_encoder_files stable_sort_values
             example_widgets admin_session) = admin_session
   \<and> fst (script example_model_files example_encoder_files stable_sort_values
             example_widgets admin_session) = admin_session
   \<and> fst (main_app unreadable_files unreadable_files reversing_sort_values
             example_widgets admin_session) = admin_session"
  using ranking_keeps_session [of example_model_files example_encoder_files stable_sort_values
      example_widgets admin_session]
    ranking_keeps_session [of unreadable_files unreadable_files reversing_sort_values
      example_widgets admin_session]
  by (simp add: admin_session_def)

subsection \<open>Failures: the ranking request and the loaders\<close>

lemma rank_top3_raises:
  "rank_top3 sv a svc proc st = Inl e \<longleftrightarrow> raised_in_request a svc proc st e"
  by (auto simp: rank_top3_def input_data_sorted_def predicted_table_def candidate_table_def
      raised_in_request_def split: sum.splits prod.splits)

text \<open>
  C8. When the artifacts are loaded and the button is pressed, every exception raised
  inside the ranking request (by the encoding of a label, by the construction of the
  table, by the prediction or by the assignment of the predicted column) is caught by
  the handler: the main application shows an error that ends with the exception's own
  text, returns normally (no exception leaves it) and keeps the session.
\<close>

theorem ranking_error_is_shown:
  assumes "load_models mf = (out1, Inr (Some m1, Some m2))"
    and "load_encoders ef = (out2, Inr (Some e1, Some e2, Some e3, Some e4))"
    and "ss ''username'' = Some u"
    and "find_clicked w"
    and "raised_in_request
           \<lparr>inpatient_model = m1, outpatient_model = m2, inpatient_le_drg = e1,
            inpatient_le_state = e2, outpatient_le_apc = e3, outpatient_le_state = e4\<rparr>
           (service_type w) (procedure w) (state w) e"
  shows "main_app mf ef sv w ss =
           (ss,
            [Title ''MediRank - Best Hospitals Finder'',
             Write (''Welcome, **'' @ str_val u @ ''**!'')]
              @ out1 @ out2 @ [Error (''Error: '' @ str_exc e)],
            None)"
proof -
  let ?a = "\<lparr>inpatient_model = m1, outpatient_model = m2, inpatient_le_drg = e1,
            inpatient_le_state = e2, outpatient_le_apc = e3, outpatient_le_state = e4\<rparr>"
  from assms(5) have "rank_top3 sv ?a (service_type w) (procedure w) (state w) = Inl e"
    by (simp add: rank_top3_raises)
  then have "find_best_hospitals sv ?a w = [Error (''Error: '' @ str_exc e)]"
    by (simp add: find_best_hospitals_def)
  then show ?thesis
    using assms(1-4) by (simp add: main_app_def)
qed

lemma load_examples:
  "load_models example_model_files
     = ([], Inr (Some (inpatient_model example_artifacts), Some (outpatient_model example_artifacts)))"
  "load_encoders example_encoder_files
     = ([], Inr (Some (inpatient_le_drg example_artifacts), Some (inpatient_le_state example_artifacts),
                 Some (outpatient_le_apc example_artifacts), Some (outpatient_le_state example_artifacts)))"
  "load_models failing_model_files
     = ([], Inr (Some (inpatient_model failing_artifacts), Some (outpatient_model example_artifacts)))"
  by (simp_all add: load_models_def load_encoders_def example_model_files_def
      example_encoder_files_def failing_model_files_def)

lemma raised_unknown_label:
  "raised_in_request
     \<lparr>inpatient_model = inpatient_model example_artifacts,
      outpatient_model = outpatient_model example_artifacts,
      inpatient_le_drg = inpatient_le_drg example_artifacts,
      inpatient_le_state = inpatient_le_state example_artifacts,
      outpatient_le_apc = outpatient_le_apc example_artifacts,
      outpatient_le_state = outpatient_le_state example_artifacts\<rparr>
     (service_type unknown_label_widgets) (procedure unknown_label_widgets)
     (state unknown_label_widgets)
     (ValueError ''y contains previously unseen labels: DRG-999'')"
  by (simp add: raised_in_request_def encode_def unknown_label_widgets_def example_widgets_def
      example_artifacts_def)

lemma raised_failing_model:
  "raised_in_request
     \<lparr>inpatient_model = inpatient_model failing_artifacts,
      outpatient_model = outpatient_model example_artifacts,
      inpatient_le_drg = inpatient_le_drg example_artifacts,
      inpatient_le_state = inpatient_le_state example_artifacts,
      outpatient_le_apc = outpatient_le_apc example_artifacts,
      outpatient_le_state = outpatient_le_state example_artifacts\<rparr>
     (service_type example_widgets) (procedure example_widgets) (state example_widgets)
     (ValueError ''X has 5 features, but the model is expecting 4 features as input.'')"
  by (simp add: raised_in_request_def encode_def example_widgets_def getitem0_def
      example_artifacts_def failing_artifacts_def input_data_rows predict_def)

theorem ranking_error_is_shown_witness:
  "main_app example_model_files example_encoder_files stable_sort_values
     unknown_label_widgets admin_session
   = (admin_session,
      [Title ''MediRank - Best Hospitals Finder'', Write ''Welcome, **admin**!'',
       Error ''Error: y contains previously unseen labels: DRG-999''],
      None)
   \<and> main_app failing_model_files example_encoder_files stable_sort_values
       example_widgets admin_session
     = (admin_session,
        [Title ''MediRank - Best Hospitals Finder'', Write ''Welcome, **admin**!'',
         Error ''Error: X has 5 features, but the model is expecting 4 features as input.''],
        None)"
proof -
  have u: "admin_session ''username'' = Some (PyStr ''admin'')"
    by (simp add: admin_session_def)
  have c1: "find_clicked unknown_label_widgets" and c2: "find_clicked example_widgets"
    by (simp_all add: unknown_label_widgets_def example_widgets_def)
  have a: "main_app example_model_files example_encoder_files stable_sort_values
             unknown_label_widgets admin_session
           = (admin_session,
              [Title ''MediRank - Best Hospitals Finder'',
               Write (''Welcome, **'' @ str_val (PyStr ''admin'') @ ''**!'')]
                @ [] @ []
                @ [Error (''Error: ''
                     @ str_exc (ValueError ''y contains previously unseen labels: DRG-999''))],
              None)"
    by (rule ranking_error_is_shown) (rule load_examples u c1 raised_unknown_label)+
  have b: "main_app failing_model_files example_encoder_files stable_sort_values
             example_widgets admin_session
           = (admin_session,
              [Title ''MediRank - Best Hospitals Finder'',
               Write (''Welcome, **'' @ str_val (PyStr ''admin'') @ ''**!'')]
                @ [] @ []
                @ [Error (''Error: ''
                     @ str_exc (ValueError
                          ''X has 5 features, but the model is expecting 4 features as input.''))],
              None)"
    by (rule ranking_error_is_shown) (rule load_examples u c2 raised_failing_model)+
  from a b show ?thesis by simp
qed

lemma first_failure_None:
  "first_failure pickle_load paths = None \<longleftrightarrow> (\<forall>p\<in>set paths. readable pickle_load p)"
  by (induction paths) (auto simp: readable_def split: sum.splits)

lemma first_failure_Some:
  "first_failure pickle_load paths = Some e \<Longrightarrow>
     \<exists>p\<in>set paths. pickle_load p = Inl e"
  by (induction paths) (auto split: sum.splits)

text \<open>
  C7 (amended). When a required file fails to load and the first such file, in the
  order in which the loader opens the files, is absent (\<open>FileNotFoundError\<close>), the loader
  returns the tuple of \<open>None\<close>s, shows its error message and raises nothing, whatever the
  state of the files after it. When the first file that fails is unreadable for another
  reason, the exception of that file leaves the loader.
\<close>

theorem loaders_first_failure:
  "(first_failure mf model_paths = Some e \<and> is_FileNotFoundError e \<longrightarrow>
      load_models mf
        = ([Error ''Model files not found. Please check the file paths.''], Inr (None, None)))
   \<and> (first_failure mf model_paths = Some e \<and> \<not> is_FileNotFoundError e \<longrightarrow>
      load_models mf = ([], Inl e))
   \<and> (first_failure ef encoder_paths = Some e' \<and> is_FileNotFoundError e' \<longrightarrow>
      load_encoders ef
        = ([Error ''Encoder files not found. Please check the file paths.''],
           Inr (None, None, None, None)))
   \<and> (first_failure ef encoder_paths = Some e' \<and> \<not> is_FileNotFoundError e' \<longrightarrow>
      load_encoders ef = ([], Inl e'))"
  by (auto simp: model_paths_def encoder_paths_def load_models_def load_encoders_def
      split: sum.splits)

theorem loaders_first_failure_witness:
  "first_failure (absent_then_unreadable :: string \<Rightarrow> py_exception + model) model_paths
     = Some (FileNotFoundError ''[Errno 2] No such file or directory: inpatient_model.pkl'')
   \<and> \<not> readable (absent_then_unreadable :: string \<Rightarrow> py_exception + model) ''outpatient_model.pkl''
   \<and> \<not> absent (absent_then_unreadable :: string \<Rightarrow> py_exception + model) ''outpatient_model.pkl''
   \<and> load_models (absent_then_unreadable :: string \<Rightarrow> py_exception + model)
       = ([Error ''Model files not found. Please check the file paths.''], Inr (None, None))
   \<and> first_failure (unreadable_then_absent :: string \<Rightarrow> py_exception + model) model_paths
       = Some (PermissionError ''[Errno 13] Permission denied: inpatient_model.pkl'')
   \<and> absent (unreadable_then_absent :: string \<Rightarrow> py_exception + model) ''outpatient_model.pkl''
   \<and> load_models (unreadable_then_absent :: string \<Rightarrow> py_exception + model)
       = ([], Inl (PermissionError ''[Errno 13] Permission denied: inpatient_model.pkl''))
   \<and> first_failure missing_state_encoder encoder_paths
       = Some (FileNotFoundError ''[Errno 2] No such file or directory: le_state.pkl'')
   \<and> load_encoders missing_state_encoder
       = ([Error ''Encoder files not found. Please check the file paths.''],
          Inr (None, None, None, None))
   \<and> first_failure (unreadable_then_absent :: string \<Rightarrow> py_exception + label_encoder)
         encoder_paths
       = Some (PermissionError ''[Errno 13] Permission denied: le_drg.pkl'')
   \<and> load_encoders (unreadable_then_absent :: string \<Rightarrow> py_exception + label_encoder)
       = ([], Inl (PermissionError ''[Errno 13] Permission denied: le_drg.pkl''))"
proof -
  have a: "first_failure (absent_then_unreadable :: string \<Rightarrow> py_exception + model) model_paths
     = Some (FileNotFoundError ''[Errno 2] No such file or directory: inpatient_model.pkl'')"
    "\<not> readable (absent_then_unreadable :: string \<Rightarrow> py_exception + model) ''outpatient_model.pkl''"
    "\<not> absent (absent_then_unreadable :: string \<Rightarrow> py_exception + model) ''outpatient_model.pkl''"
    by (simp_all add: model_paths_def absent_then_unreadable_def readable_def absent_def)
  have b: "first_failure (unreadable_then_absent :: string \<Rightarrow> py_exception + model) model_paths
       = Some (PermissionError ''[Errno 13] Permission denied: inpatient_model.pkl'')"
    "absent (unreadable_then_absent :: string \<Rightarrow> py_exception + model) ''outpatient_model.pkl''"
    by (simp_all add: model_paths_def unreadable_then_absent_def absent_def)
  have c: "first_failure missing_state_encoder encoder_paths
       = Some (FileNotFoundError ''[Errno 2] No such file or directory: le_state.pkl'')"
    by (simp add: encoder_paths_def missing_state_encoder_def example_encoder_files_def)
  have d: "first_failure (unreadable_then_absent :: string \<Rightarrow> py_exception + label_encoder)
         encoder_paths
       = Some (PermissionError ''[Errno 13] Permission denied: le_drg.pkl'')"
    by (simp add: encoder_paths_def unreadable_then_absent_def)
  show ?thesis
    using a b c d
      loaders_first_failure [of "absent_then_unreadable :: string \<Rightarrow> py_exception + model"
        "FileNotFoundError ''[Errno 2] No such file or directory: inpatient_model.pkl''"
        missing_state_encoder
        "FileNotFoundError ''[Errno 2] No such file or directory: le_state.pkl''"]
      loaders_first_failure [of "unreadable_then_absent :: string \<Rightarrow> py_exception + model"
        "PermissionError ''[Errno 13] Permission denied: inpatient_model.pkl''"
        "unreadable_then_absent :: string \<Rightarrow> py_exception + label_encoder"
        "PermissionError ''[Errno 13] Permission denied: le_drg.pkl''"]
    by simp
qed

text \<open>
  With files that exist and may not be read, \<open>open\<close> raises \<open>PermissionError\<close>; both
  loaders let it pass, and it leaves the main application too.
\<close>

theorem loaders_unreadable_file_counterexample:
  "\<not> readable (unreadable_files :: string \<Rightarrow> py_exception + model) ''inpatient_model.pkl''
   \<and> \<not> absent (unreadable_files :: string \<Rightarrow> py_exception + model) ''inpatient_model.pkl''
   \<and> load_models (unreadable_files :: string \<Rightarrow> py_exception + model)
       = ([], Inl (PermissionError ''[Errno 13] Permission denied: inpatient_model.pkl''))
   \<and> load_encoders (unreadable_files :: string \<Rightarrow> py_exception + label_encoder)
       = ([], Inl (PermissionError ''[Errno 13] Permission denied: le_drg.pkl''))
   \<and> snd (snd (main_app unreadable_files unreadable_files stable_sort_values example_widgets
                  admin_session))
       = Some (PermissionError ''[Errno 13] Permission denied: inpatient_model.pkl'')"
  by (simp add: readable_def absent_def unreadable_files_def load_models_def load_encoders_def
      main_app_def admin_session_def)

subsection \<open>The order of rows of equal cost\<close>










lemma stable_sort_values_stable: "stable_order df (stable_sort_values df)"
  by (simp add: stable_sort_values_def stable_order_def sort_key_stable)



end
